theory Spec2Isabelle
  imports Complex_Main "HOL-Library.Log_Nat"
begin

section \<open>JavaScript primitives used by the editor\<close>

text \<open>
  Line numbers and character offsets are JavaScript numbers holding integers; they are
  modelled as \<^typ>\<open>int\<close>, so that negative and oversized arguments of \<open>slice\<close> and
  \<open>splice\<close> behave as ECMAScript prescribes instead of being excluded by the type.
  A string is a \<^typ>\<open>string\<close>, the line array a \<^typ>\<open>string list\<close>.
\<close>

text \<open>The relative-index rule shared by \<open>String.prototype.slice\<close>, \<open>Array.prototype.slice\<close>
  and \<open>Array.prototype.splice\<close>: a negative index counts from the end, and the result is
  clamped into \<open>[0, len]\<close>.\<close>

definition js_rel :: "nat \<Rightarrow> int \<Rightarrow> nat" where
  "js_rel len i = (if i < 0 then nat (max (int len + i) 0) else min (nat i) len)"

text \<open>\<open>s.slice(b, e)\<close> and \<open>s.slice(b)\<close>.\<close>

definition js_slice :: "'a list \<Rightarrow> int \<Rightarrow> int \<Rightarrow> 'a list" where
  "js_slice s b e =
     (let from = js_rel (length s) b; to = js_rel (length s) e
      in take (to - from) (drop from s))"

definition js_slice_from :: "'a list \<Rightarrow> int \<Rightarrow> 'a list" where
  "js_slice_from s b = drop (js_rel (length s) b) s"

text \<open>\<open>xs.splice(start, deleteCount, ...items)\<close>: the array after the call.\<close>

definition js_splice :: "'a list \<Rightarrow> int \<Rightarrow> int \<Rightarrow> 'a list \<Rightarrow> 'a list" where
  "js_splice xs start deleteCount items =
     (let a = js_rel (length xs) start;
          d = min (nat (max deleteCount 0)) (length xs - a)
      in take a xs @ items @ drop (a + d) xs)"

text \<open>\<open>lines[i] || ''\<close>: an index outside the array reads \<open>undefined\<close>, which \<open>||\<close>
  replaces by the empty string (as it does the empty string itself).\<close>

definition line_at :: "string list \<Rightarrow> int \<Rightarrow> string" where
  "line_at ls i = (if 0 \<le> i \<and> i < int (length ls) then ls ! nat i else [])"

section \<open>Editor state\<close>

text \<open>\<open>ksel\<close>, the keyboard-driven cross-line selection (\<open>null\<close> is \<open>None\<close>).\<close>

record ksel_t =
  anchorLine :: int
  anchorOffset :: int
  focusLine :: int
  focusOffset :: int

text \<open>The object \<open>{startLine, startOffset, endLine, endOffset}\<close> returned by
  \<open>kselNormalized\<close>, \<open>getKselAsCross\<close> and \<open>getCrossLineSelection\<close>.\<close>

record cross_sel =
  startLine :: int
  startOffset :: int
  endLine :: int
  endOffset :: int

text \<open>
  The module-level variables of \<open>app.js\<close> that the operations below read or write. The
  two timers are modelled by whether a callback is pending. The DOM (rebuilt by
  \<open>buildAllLines\<close>, caret placement inside \<open>requestAnimationFrame\<close>) is not part of the
  state.
\<close>

record editor =
  lines :: "string list"
  ksel :: "ksel_t option"
  crossLineSelActive :: bool
  undoStack :: "string list list"
  redoStack :: "string list list"
  undoPushTimer :: bool
  autosaveTimer :: bool

section \<open>Undo history\<close>

text \<open>\<open>pushUndo()\<close> only (re)arms the 300 ms timer; the work is done by its callback.\<close>

definition pushUndo :: "editor \<Rightarrow> editor" where
  "pushUndo s = s\<lparr>undoPushTimer := True\<rparr>"

definition scheduleAutosave :: "editor \<Rightarrow> editor" where
  "scheduleAutosave s = s\<lparr>autosaveTimer := True\<rparr>"

text \<open>
  The arrow function that \<open>pushUndo\<close> hands to \<open>setTimeout\<close>. The stacks are JavaScript
  arrays: \<open>push\<close> appends at the end, \<open>pop\<close> removes the last element, \<open>shift\<close> the
  first. Every element of a snapshot is a string, so comparing the two
  \<open>JSON.stringify\<close> results is comparing the two arrays.
\<close>

definition pushUndo_callback :: "editor \<Rightarrow> editor" where
  "pushUndo_callback s =
     (let snapshot = lines s in
      if undoStack s \<noteq> [] \<and> last (undoStack s) = snapshot
      then s\<lparr>undoPushTimer := False\<rparr>
      else
        let u = undoStack s @ [snapshot];
            u' = (if length u > 200 then tl u else u)
        in s\<lparr>undoStack := u', redoStack := [], undoPushTimer := False\<rparr>)"

definition undo :: "editor \<Rightarrow> editor" where
  "undo s =
     (if undoStack s = [] then s
      else scheduleAutosave
             (s\<lparr>redoStack := redoStack s @ [lines s],
                lines := last (undoStack s),
                undoStack := butlast (undoStack s)\<rparr>))"

definition redo :: "editor \<Rightarrow> editor" where
  "redo s =
     (if redoStack s = [] then s
      else scheduleAutosave
             (s\<lparr>undoStack := undoStack s @ [lines s],
                lines := last (redoStack s),
                redoStack := butlast (redoStack s)\<rparr>))"

text \<open>\<open>text.split('\n')\<close>: never empty, the empty string gives one empty line.\<close>

fun split_newline :: "string \<Rightarrow> string list" where
  "split_newline [] = [[]]"
| "split_newline (c # cs) =
     (if c = CHR 0x0A then [] # split_newline cs
      else (case split_newline cs of
              [] \<Rightarrow> [[c]]
            | l # ls \<Rightarrow> (c # l) # ls))"

definition setContent :: "string \<Rightarrow> editor \<Rightarrow> editor" where
  "setContent txt s =
     (let ls = split_newline txt;
          ls' = (if ls = [] then [[]] else ls)
      in s\<lparr>lines := ls', undoStack := [], redoStack := []\<rparr>)"

text \<open>The state that \<open>init()\<close> leaves: the module-level initial values, then
  \<open>setContent(content || '')\<close>, then \<open>undoStack.push(lines.slice())\<close>.\<close>

definition init :: "string \<Rightarrow> editor" where
  "init content =
     (let s0 = \<lparr>lines = [[]], ksel = None, crossLineSelActive = False,
                 undoStack = [], redoStack = [],
                 undoPushTimer = False, autosaveTimer = False\<rparr>;
          s1 = setContent content s0
      in s1\<lparr>undoStack := undoStack s1 @ [lines s1]\<rparr>)"

text \<open>
  What can happen to the history between two observations. \<open>undoStack\<close> and \<open>redoStack\<close>
  are assigned only in \<open>setContent\<close>, \<open>init\<close>, \<open>undo\<close>, \<open>redo\<close> and the timer callback;
  every editing operation only changes \<open>lines\<close> and arms the timers, so \<open>Edit ls\<close> stands
  for any of them, by the line array \<open>ls\<close> it leaves. The callback runs only while the
  timer is armed.
\<close>

datatype event = Edit "string list" | Commit | Undo | Redo | SetContent string

fun step :: "event \<Rightarrow> editor \<Rightarrow> editor" where
  "step (Edit ls) s = scheduleAutosave (pushUndo (s\<lparr>lines := ls\<rparr>))"
| "step Commit s = (if undoPushTimer s then pushUndo_callback s else s)"
| "step Undo s = undo s"
| "step Redo s = redo s"
| "step (SetContent txt) s = setContent txt s"

definition run :: "event list \<Rightarrow> editor \<Rightarrow> editor" where
  "run evs s = fold step evs s"

fun edit_event :: "event \<Rightarrow> bool" where
  "edit_event (Edit ls) = True"
| "edit_event Commit = True"
| "edit_event _ = False"

text \<open>The two stacks together hold at most 200 entries.\<close>

definition depth_ok :: "editor \<Rightarrow> bool" where
  "depth_ok s = (length (undoStack s) + length (redoStack s) \<le> 200)"

section \<open>Keyboard selection helpers\<close>

definition kselNormalized :: "ksel_t option \<Rightarrow> cross_sel option" where
  "kselNormalized k =
     (case k of
        None \<Rightarrow> None
      | Some ks \<Rightarrow>
          if anchorLine ks < focusLine ks
             \<or> (anchorLine ks = focusLine ks \<and> anchorOffset ks \<le> focusOffset ks)
          then Some \<lparr>startLine = anchorLine ks, startOffset = anchorOffset ks,
                     endLine = focusLine ks, endOffset = focusOffset ks\<rparr>
          else Some \<lparr>startLine = focusLine ks, startOffset = focusOffset ks,
                     endLine = anchorLine ks, endOffset = anchorOffset ks\<rparr>)"

text \<open>\<open>deleteKsel(insert)\<close>; the argument is \<open>None\<close> when the call passes none.\<close>

definition deleteKsel :: "string option \<Rightarrow> editor \<Rightarrow> editor" where
  "deleteKsel ins s =
     (case kselNormalized (ksel s) of
        None \<Rightarrow> s
      | Some nm \<Rightarrow>
          let before = js_slice (line_at (lines s) (startLine nm)) 0 (startOffset nm);
              after = js_slice_from (line_at (lines s) (endLine nm)) (endOffset nm);
              newLines = (if ins = Some [CHR 0x0A] then [before, after]
                          else [before @ (case ins of None \<Rightarrow> [] | Some t \<Rightarrow> t) @ after]);
              ls = js_splice (lines s) (startLine nm)
                     (endLine nm - startLine nm + 1) newLines;
              ls' = (if ls = [] then [[]] else ls)
          in scheduleAutosave (pushUndo
               (s\<lparr>lines := ls', ksel := None, crossLineSelActive := False\<rparr>)))"

definition getKselAsCross :: "editor \<Rightarrow> cross_sel option" where
  "getKselAsCross s =
     (case kselNormalized (ksel s) of
        None \<Rightarrow> None
      | Some nm \<Rightarrow> if startLine nm = endLine nm then None else Some nm)"

section \<open>Deleting a cross-line selection\<close>

text \<open>\<open>deleteSelection(crossSel)\<close>: the returned boolean and the state after the call.\<close>

definition deleteSelection :: "cross_sel option \<Rightarrow> editor \<Rightarrow> bool \<times> editor" where
  "deleteSelection crossSel s =
     (case crossSel of
        None \<Rightarrow> (False, s)
      | Some c \<Rightarrow>
          if startLine c = endLine c then (False, s)
          else
            let before = js_slice (line_at (lines s) (startLine c)) 0 (startOffset c);
                after = js_slice_from (line_at (lines s) (endLine c)) (endOffset c);
                merged = before @ after;
                ls = js_splice (lines s) (startLine c) (endLine c - startLine c + 1) [merged];
                ls' = (if ls = [] then [[]] else ls)
            in (True, (scheduleAutosave (pushUndo (s\<lparr>lines := ls'\<rparr>)))
                        \<lparr>crossLineSelActive := False\<rparr>))"

section \<open>Keyboard handling on a line\<close>

text \<open>The fields of a \<open>KeyboardEvent\<close> that the handlers read.\<close>

record key_event =
  key :: string
  shiftKey :: bool
  ctrlKey :: bool
  metaKey :: bool
  altKey :: bool

text \<open>
  \<open>handleLineKeydown(e, idx, raw)\<close> is modelled branch by branch. \<open>idx\<close> is the index the
  line element was created with, \<open>val\<close> is \<open>raw.value\<close>, \<open>sel\<close> and \<open>selEnd\<close> are
  \<open>raw.selectionStart\<close> and \<open>raw.selectionEnd\<close>.

  The first block consumes a cross-line keyboard selection; \<open>None\<close> means that the block
  did not return and the handler goes on to its other branches.
\<close>

definition keydown_ksel :: "key_event \<Rightarrow> editor \<Rightarrow> editor option" where
  "keydown_ksel e s =
     (case ksel s of
        None \<Rightarrow> None
      | Some k \<Rightarrow>
          if focusLine k \<noteq> anchorLine k then
            if (key e = ''Delete'' \<or> key e = ''Backspace'') \<and> \<not> ctrlKey e \<and> \<not> metaKey e
            then Some (deleteKsel None s)
            else if \<not> ctrlKey e \<and> \<not> metaKey e \<and> \<not> altKey e \<and> length (key e) = 1
            then Some (deleteKsel (Some (key e)) s)
            else if key e = ''Enter'' \<and> \<not> shiftKey e
            then Some (deleteKsel (Some [CHR 0x0A]) s)
            else None
          else None)"

datatype js_error = TypeError

text \<open>
  Backspace at the start of a line merges it into the previous one. \<open>lines[idx - 1]\<close> is
  read without a default: outside the array it is \<open>undefined\<close> and \<open>prevContent.length\<close>
  throws before anything is written. \<open>None\<close> again means that the branch is not taken.
\<close>

definition keydown_Backspace :: "nat \<Rightarrow> string \<Rightarrow> nat \<Rightarrow> nat \<Rightarrow> editor \<Rightarrow> (js_error + editor) option" where
  "keydown_Backspace idx val sel selEnd s =
     (if sel = 0 \<and> idx > 0 \<and> selEnd = 0 then
        if idx - 1 < length (lines s) then
          let prevContent = lines s ! (idx - 1);
              ls = (lines s)[idx - 1 := prevContent @ val];
              ls' = js_splice ls (int idx) 1 []
          in Some (Inr (scheduleAutosave (pushUndo (s\<lparr>lines := ls'\<rparr>))))
        else Some (Inl TypeError)
      else None)"

text \<open>Delete at the end of a line merges the next line into it.\<close>

definition keydown_Delete :: "nat \<Rightarrow> string \<Rightarrow> nat \<Rightarrow> editor \<Rightarrow> editor option" where
  "keydown_Delete idx val sel s =
     (if sel = length val \<and> int idx < int (length (lines s)) - 1 then
        let ls = (lines s)[idx := val @ lines s ! (idx + 1)];
            ls' = js_splice ls (int idx + 1) 1 []
        in Some (scheduleAutosave (pushUndo (s\<lparr>lines := ls'\<rparr>)))
      else None)"

definition clearKsel :: "editor \<Rightarrow> editor" where
  "clearKsel s =
     (case ksel s of
        None \<Rightarrow> s
      | Some k \<Rightarrow> s\<lparr>ksel := None, crossLineSelActive := False\<rparr>)"

text \<open>The selection \<open>ksel\<close> that the arrow branches start from when none is active.\<close>

definition ksel_or_caret :: "editor \<Rightarrow> nat \<Rightarrow> nat \<Rightarrow> ksel_t" where
  "ksel_or_caret s idx sel =
     (case ksel s of
        None \<Rightarrow> \<lparr>anchorLine = int idx, anchorOffset = int sel,
                  focusLine = int idx, focusOffset = int sel\<rparr>
      | Some k \<Rightarrow> k)"

text \<open>
  The \<open>ArrowUp\<close> and \<open>ArrowDown\<close> branches. \<open>applyKselVisual\<close>, \<open>switchToRendered\<close> and
  \<open>switchToRaw\<close> only touch the DOM, so they leave no trace here.
\<close>

definition keydown_ArrowUp :: "key_event \<Rightarrow> nat \<Rightarrow> nat \<Rightarrow> editor \<Rightarrow> editor" where
  "keydown_ArrowUp e idx sel s =
     (if idx > 0 then
        if shiftKey e then
          let k = ksel_or_caret s idx sel;
              f = max 0 (focusLine k - 1)
          in s\<lparr>ksel := Some (k\<lparr>focusLine := f,
                                 focusOffset := int (length (line_at (lines s) f))\<rparr>)\<rparr>
        else clearKsel s
      else s)"

definition keydown_ArrowDown :: "key_event \<Rightarrow> nat \<Rightarrow> nat \<Rightarrow> editor \<Rightarrow> editor" where
  "keydown_ArrowDown e idx sel s =
     (if int idx < int (length (lines s)) - 1 then
        if shiftKey e then
          let k = ksel_or_caret s idx sel;
              f = min (int (length (lines s)) - 1) (focusLine k + 1)
          in s\<lparr>ksel := Some (k\<lparr>focusLine := f, focusOffset := 0\<rparr>)\<rparr>
        else clearKsel s
      else if shiftKey e then
        let k = ksel_or_caret s idx sel
        in s\<lparr>ksel := Some (k\<lparr>focusOffset := int (length (line_at (lines s) (int idx)))\<rparr>)\<rparr>
      else s)"

text \<open>\<open>Shift+End\<close> and \<open>Shift+Home\<close> act only on a selection that is already cross-line.\<close>

definition keydown_ShiftEnd :: "nat \<Rightarrow> editor \<Rightarrow> editor" where
  "keydown_ShiftEnd idx s =
     (case ksel s of
        None \<Rightarrow> s
      | Some k \<Rightarrow>
          if focusLine k \<noteq> anchorLine k
          then s\<lparr>ksel := Some (k\<lparr>focusLine := int idx,
                                   focusOffset := int (length (line_at (lines s) (int idx)))\<rparr>)\<rparr>
          else s)"

definition keydown_ShiftHome :: "nat \<Rightarrow> editor \<Rightarrow> editor" where
  "keydown_ShiftHome idx s =
     (case ksel s of
        None \<Rightarrow> s
      | Some k \<Rightarrow>
          if focusLine k \<noteq> anchorLine k
          then s\<lparr>ksel := Some (k\<lparr>focusLine := int idx, focusOffset := 0\<rparr>)\<rparr>
          else s)"

text \<open>\<open>app.selectAll()\<close>, as far as the state goes.\<close>

definition selectAll :: "editor \<Rightarrow> editor" where
  "selectAll s =
     (let n = int (length (lines s))
      in s\<lparr>ksel := Some \<lparr>anchorLine = 0, anchorOffset = 0, focusLine = n - 1,
                          focusOffset = int (length (line_at (lines s) (n - 1)))\<rparr>,
           crossLineSelActive := True\<rparr>)"



text \<open>
  Selection keys pressed one after the other. Each comes with the index of the line
  whose textarea has the focus and the caret position in it.
\<close>

datatype sel_key = KeyArrowUp key_event | KeyArrowDown key_event | KeyShiftEnd | KeyShiftHome

fun keydown_sel :: "sel_key \<Rightarrow> nat \<Rightarrow> nat \<Rightarrow> editor \<Rightarrow> editor" where
  "keydown_sel (KeyArrowUp e) idx sel s = keydown_ArrowUp e idx sel s"
| "keydown_sel (KeyArrowDown e) idx sel s = keydown_ArrowDown e idx sel s"
| "keydown_sel KeyShiftEnd idx sel s = keydown_ShiftEnd idx s"
| "keydown_sel KeyShiftHome idx sel s = keydown_ShiftHome idx s"


section \<open>JavaScript numbers\<close>

text \<open>
  The two projections between rendered and raw offsets divide and multiply JavaScript
  numbers, which are IEEE 754 binary64 values. A finite number is modelled by the
  rational it denotes, and an arithmetic operation by the exact operation followed by
  rounding to the nearest number with a 53-bit significand, ties to the even
  significand. The exponent is left unbounded: the quotients and products formed here
  are string positions and ratios of string positions, far from overflow and underflow.
  Integers below \<open>2^53\<close> in absolute value are numbers exactly.
\<close>

text \<open>The exponent \<open>e\<close> with \<open>2^e \<le> |x| < 2^(e+1)\<close>, for \<open>x \<noteq> 0\<close>.\<close>

definition float_exponent :: "rat \<Rightarrow> int" where
  "float_exponent x =
     (let (p, q) = quotient_of \<bar>x\<bar>;
          e0 = bitlen p - bitlen q
      in if 2 powi e0 \<le> \<bar>x\<bar> then e0 else e0 - 1)"

definition round_half_even :: "rat \<Rightarrow> int" where
  "round_half_even y =
     (let f = \<lfloor>y\<rfloor>; d = y - of_int f
      in if d < 1 / 2 then f
         else if 1 / 2 < d then f + 1
         else if even f then f else f + 1)"

definition fl64 :: "rat \<Rightarrow> rat" where
  "fl64 x =
     (if x = 0 then 0
      else let u = 2 powi (float_exponent x - 52)
           in of_int (round_half_even (x / u)) * u)"

definition js_div :: "rat \<Rightarrow> rat \<Rightarrow> rat" where
  "js_div a b = fl64 (a / b)"

definition js_mul :: "rat \<Rightarrow> rat \<Rightarrow> rat" where
  "js_mul a b = fl64 (a * b)"

text \<open>\<open>Math.round\<close>: the nearest integer, a tie going up.\<close>

definition Math_round :: "rat \<Rightarrow> int" where
  "Math_round x = \<lfloor>x + 1 / 2\<rfloor>"

section \<open>The pointer-driven selection\<close>

text \<open>
  What \<open>getCrossLineSelection\<close> reads from the DOM about one boundary point of the
  browser's range: the result of \<open>lineIdxOf\<close> on its container (\<open>-1\<close> outside every
  line element), the boundary offset, whether \<open>getLineEl\<close> finds the line element,
  whether that element is in editing mode, whether it has a rendered child, the lengths
  of the text nodes below the rendered child in document order, and the position of
  the container among them (\<open>None\<close> when it is not one of them).
\<close>

record dom_point =
  pt_line :: int
  pt_offset :: nat
  pt_lineEl :: bool
  pt_editing :: bool
  pt_rendered :: bool
  pt_textNodes :: "nat list"
  pt_node :: "nat option"

text \<open>The loop over the tree walker in \<open>offsetInLine\<close>: \<open>Some\<close> character position when
  the container is met, \<open>None\<close> when the walker runs out (\<open>found\<close> stays false).\<close>

fun walk_to_node :: "nat list \<Rightarrow> nat \<Rightarrow> nat option \<Rightarrow> nat \<Rightarrow> nat \<Rightarrow> nat option" where
  "walk_to_node [] i node off charPos = None"
| "walk_to_node (t # ts) i node off charPos =
     (if node = Some i then Some (charPos + off)
      else walk_to_node ts (Suc i) node off (charPos + t))"

definition renderedCharPos :: "dom_point \<Rightarrow> nat" where
  "renderedCharPos p =
     (case walk_to_node (pt_textNodes p) 0 (pt_node p) (pt_offset p) 0 of
        Some c \<Rightarrow> c
      | None \<Rightarrow> pt_offset p)"

text \<open>\<open>rendered.textContent\<close> is the concatenation of the text nodes.\<close>

definition renderedTextLength :: "dom_point \<Rightarrow> nat" where
  "renderedTextLength p = sum_list (pt_textNodes p)"

definition offsetInLine :: "dom_point \<Rightarrow> editor \<Rightarrow> int" where
  "offsetInLine p s =
     (if \<not> pt_lineEl p then 0
      else if pt_editing p then int (pt_offset p)
      else if \<not> pt_rendered p then 0
      else
        let charPos = renderedCharPos p;
            rawLine = line_at (lines s) (pt_line p)
        in if renderedTextLength p = 0 then 0
           else Math_round (js_mul (js_div (of_nat charPos) (of_nat (renderedTextLength p)))
                                   (of_nat (length rawLine))))"

text \<open>The browser's selection: \<open>None\<close> when \<open>window.getSelection()\<close> is null.\<close>

record dom_selection =
  isCollapsed :: bool
  rangeCount :: nat
  startPoint :: dom_point
  endPoint :: dom_point

definition getCrossLineSelection :: "dom_selection option \<Rightarrow> editor \<Rightarrow> cross_sel option" where
  "getCrossLineSelection sel s =
     (case sel of
        None \<Rightarrow> None
      | Some d \<Rightarrow>
          if rangeCount d = 0 \<or> isCollapsed d then None
          else
            let sl = pt_line (startPoint d); el = pt_line (endPoint d)
            in if sl = - 1 \<or> el = - 1 then None
               else if sl = el then None
               else Some \<lparr>startLine = sl, startOffset = offsetInLine (startPoint d) s,
                          endLine = el, endOffset = offsetInLine (endPoint d) s\<rparr>)"

text \<open>
  \<open>findTextNodeAtOffset(container, rawOffset, rawLine)\<close>, the inverse projection used to
  paint a keyboard selection. \<open>nodes\<close> are the lengths of the container's text nodes;
  the result is the position of the chosen text node (\<open>None\<close> for the container
  itself) and the offset inside it.
\<close>

definition targetOffset :: "int \<Rightarrow> string \<Rightarrow> nat \<Rightarrow> int" where
  "targetOffset rawOffset rawLine renderedLen =
     (let ratio = (if length rawLine > 0
                   then js_div (of_int rawOffset) (of_nat (length rawLine)) else 0)
      in Math_round (js_mul ratio (of_nat renderedLen)))"

fun walk_to_offset :: "nat list \<Rightarrow> nat \<Rightarrow> int \<Rightarrow> int \<Rightarrow> (nat \<times> nat) option \<Rightarrow> nat option \<times> int" where
  "walk_to_offset [] i pos tgt lastNode =
     (case lastNode of
        Some (n, lastNodeOffset) \<Rightarrow> (Some n, int lastNodeOffset)
      | None \<Rightarrow> (None, 0))"
| "walk_to_offset (len # ts) i pos tgt lastNode =
     (if pos + int len \<ge> tgt then (Some i, min (tgt - pos) (int len))
      else walk_to_offset ts (Suc i) (pos + int len) tgt (Some (i, len)))"

definition findTextNodeAtOffset :: "nat list \<Rightarrow> int \<Rightarrow> string \<Rightarrow> nat option \<times> int" where
  "findTextNodeAtOffset nodes rawOffset rawLine =
     walk_to_offset nodes 0 0 (targetOffset rawOffset rawLine (sum_list nodes)) None"

section \<open>The global key handler\<close>

text \<open>
  The \<open>Delete\<close>/\<open>Backspace\<close> branch of the document-level \<open>keydown\<close> listener;
  \<open>None\<close> when the branch does not return. \<open>a || b\<close> on the two extractions takes the
  first that is not \<open>null\<close>.
\<close>

definition global_keydown_delete :: "key_event \<Rightarrow> dom_selection option \<Rightarrow> editor \<Rightarrow> editor option" where
  "global_keydown_delete e sel s =
     (if (key e = ''Delete'' \<or> key e = ''Backspace'') \<and> (crossLineSelActive s \<or> ksel s \<noteq> None)
      then
        let crossSel = (case getCrossLineSelection sel s of
                          Some c \<Rightarrow> Some c
                        | None \<Rightarrow> getKselAsCross s)
        in (case crossSel of
              None \<Rightarrow> None
            | Some c \<Rightarrow> Some ((snd (deleteSelection (Some c) s))\<lparr>ksel := None\<rparr>))
      else None)"

section \<open>Sequences of deleting operations\<close>

text \<open>
  The operations that remove lines, and the selection changes that may come between
  them. An exception thrown by a handler leaves the state as it was.
\<close>

datatype doc_op =
    OpSetKsel "ksel_t option"
  | OpDeleteKsel "string option"
  | OpDeleteSelection "cross_sel option"
  | OpBackspace nat string nat nat
  | OpDelete nat string nat

fun apply_op :: "doc_op \<Rightarrow> editor \<Rightarrow> editor" where
  "apply_op (OpSetKsel k) s = s\<lparr>ksel := k\<rparr>"
| "apply_op (OpDeleteKsel ins) s = deleteKsel ins s"
| "apply_op (OpDeleteSelection c) s = snd (deleteSelection c s)"
| "apply_op (OpBackspace idx val sel selEnd) s =
     (case keydown_Backspace idx val sel selEnd s of
        Some (Inr s') \<Rightarrow> s'
      | _ \<Rightarrow> s)"
| "apply_op (OpDelete idx val sel) s =
     (case keydown_Delete idx val sel s of
        Some s' \<Rightarrow> s'
      | None \<Rightarrow> s)"

definition apply_ops :: "doc_op list \<Rightarrow> editor \<Rightarrow> editor" where
  "apply_ops ops s = fold apply_op ops s"

section \<open>Normalisation of the keyboard selection\<close>

text \<open>
  Claim C3. For every keyboard selection, whatever its anchor and focus, \<open>kselNormalized\<close>
  returns a range whose start is not after its end in the lexicographic order on
  (line, offset).
\<close>

theorem kselNormalized_ordered:
  "\<exists>n. kselNormalized (Some ks) = Some n
       \<and> (startLine n < endLine n \<or> (startLine n = endLine n \<and> startOffset n \<le> endOffset n))"
  by (auto simp: kselNormalized_def)

section \<open>Range delete and range replace\<close>

lemma js_slice_prefix: "0 \<le> e \<Longrightarrow> js_slice s 0 e = take (nat e) s"
  by (simp add: js_slice_def js_rel_def Let_def min_def)

lemma js_slice_from_suffix: "0 \<le> b \<Longrightarrow> js_slice_from s b = drop (nat b) s"
  by (simp add: js_slice_from_def js_rel_def min_def)

lemma js_splice_range:
  assumes "0 \<le> a" "a \<le> b" "b < int (length xs)"
  shows "js_splice xs a (b - a + 1) items = take (nat a) xs @ items @ drop (nat b + 1) xs"
proof -
  have "js_rel (length xs) a = nat a"
    using assms by (simp add: js_rel_def)
  moreover have "nat (max (b - a + 1) 0) = nat b + 1 - nat a"
    using assms by linarith
  moreover have "nat b + 1 - nat a \<le> length xs - nat a"
    using assms by linarith
  moreover have "nat a + (nat b + 1 - nat a) = nat b + 1"
    using assms by simp
  ultimately show ?thesis
    by (simp add: js_splice_def Let_def)
qed

lemma line_at_in_range: "0 \<le> i \<Longrightarrow> i < int (length ls) \<Longrightarrow> line_at ls i = ls ! nat i"
  by (simp add: line_at_def)

text \<open>
  Claim C1. Range delete on a normalized cross-line selection whose lines exist replaces
  the lines from \<open>startLine\<close> to \<open>endLine\<close> by the single line \<open>before + after\<close>, where
  \<open>before\<close> is the start line cut at \<open>startOffset\<close> and \<open>after\<close> is the end line from
  \<open>endOffset\<close> on. This holds for \<open>deleteSelection\<close>, which also returns \<open>true\<close>, and
  for \<open>deleteKsel\<close> called without a replacement on a keyboard selection that normalizes
  to the same range. On \<open>["abc", "def", "ghi"]\<close> with the selection from (0, 1) to (2, 2)
  the result is \<open>["ai"]\<close>.
\<close>

theorem range_delete_replaces_range:
  assumes "0 \<le> startLine c" and "startLine c < endLine c"
    and "endLine c < int (length (lines s))"
    and "0 \<le> startOffset c" and "0 \<le> endOffset c"
    and "kselNormalized (Some k) = Some c"
  shows "fst (deleteSelection (Some c) s)
       \<and> lines (snd (deleteSelection (Some c) s)) =
           take (nat (startLine c)) (lines s)
           @ [take (nat (startOffset c)) (lines s ! nat (startLine c))
              @ drop (nat (endOffset c)) (lines s ! nat (endLine c))]
           @ drop (nat (endLine c) + 1) (lines s)
       \<and> lines (deleteKsel None (s\<lparr>ksel := Some k\<rparr>)) =
           take (nat (startLine c)) (lines s)
           @ [take (nat (startOffset c)) (lines s ! nat (startLine c))
              @ drop (nat (endOffset c)) (lines s ! nat (endLine c))]
           @ drop (nat (endLine c) + 1) (lines s)"
proof -
  have sp: "js_splice (lines s) (startLine c) (endLine c - startLine c + 1) items =
        take (nat (startLine c)) (lines s) @ items @ drop (nat (endLine c) + 1) (lines s)"
    for items
    using assms by (intro js_splice_range) simp_all
  have b: "js_slice (line_at (lines s) (startLine c)) 0 (startOffset c) =
        take (nat (startOffset c)) (lines s ! nat (startLine c))"
    using assms by (simp add: js_slice_prefix line_at_in_range)
  have a: "js_slice_from (line_at (lines s) (endLine c)) (endOffset c) =
        drop (nat (endOffset c)) (lines s ! nat (endLine c))"
    using assms by (simp add: js_slice_from_suffix line_at_in_range)
  have "startLine c \<noteq> endLine c"
    using assms by simp
  then have 1: "fst (deleteSelection (Some c) s)"
    by (simp add: deleteSelection_def Let_def)
  have 2: "lines (snd (deleteSelection (Some c) s)) =
           take (nat (startLine c)) (lines s)
           @ [take (nat (startOffset c)) (lines s ! nat (startLine c))
              @ drop (nat (endOffset c)) (lines s ! nat (endLine c))]
           @ drop (nat (endLine c) + 1) (lines s)"
    using \<open>startLine c \<noteq> endLine c\<close>
    by (simp add: deleteSelection_def Let_def sp a b pushUndo_def scheduleAutosave_def)
  have 3: "lines (deleteKsel None (s\<lparr>ksel := Some k\<rparr>)) =
           take (nat (startLine c)) (lines s)
           @ [take (nat (startOffset c)) (lines s ! nat (startLine c))
              @ drop (nat (endOffset c)) (lines s ! nat (endLine c))]
           @ drop (nat (endLine c) + 1) (lines s)"
    using assms(6)
    by (simp add: deleteKsel_def Let_def sp a b pushUndo_def scheduleAutosave_def)
  from 1 2 3 show ?thesis by simp
qed

theorem range_delete_example:
  "lines (snd (deleteSelection
           (Some \<lparr>startLine = 0, startOffset = 1, endLine = 2, endOffset = 2\<rparr>)
           (init ''abc\<newline>def\<newline>ghi''))) = [''ai'']
   \<and> lines (deleteKsel None
           ((init ''abc\<newline>def\<newline>ghi'')
              \<lparr>ksel := Some \<lparr>anchorLine = 2, anchorOffset = 2, focusLine = 0, focusOffset = 1\<rparr>\<rparr>)) = [''ai'']"
  using range_delete_replaces_range
    [of "\<lparr>startLine = 0, startOffset = 1, endLine = 2, endOffset = 2\<rparr>"
        "init ''abc\<newline>def\<newline>ghi''"
        "\<lparr>anchorLine = 2, anchorOffset = 2, focusLine = 0, focusOffset = 1\<rparr>"]
  by (simp add: init_def setContent_def kselNormalized_def)

text \<open>
  Claim C7. Replacing a normalized cross-line keyboard selection by a literal newline
  leaves two lines in place of the selected range: \<open>before\<close>, the start line cut at
  \<open>startOffset\<close>, and \<open>after\<close>, the end line from \<open>endOffset\<close> on.
\<close>

theorem range_replace_newline_two_lines:
  assumes "0 \<le> startLine c" and "startLine c < endLine c"
    and "endLine c < int (length (lines s))"
    and "0 \<le> startOffset c" and "0 \<le> endOffset c"
    and "kselNormalized (ksel s) = Some c"
  shows "lines (deleteKsel (Some [CHR 0x0A]) s) =
           take (nat (startLine c)) (lines s)
           @ [take (nat (startOffset c)) (lines s ! nat (startLine c)),
              drop (nat (endOffset c)) (lines s ! nat (endLine c))]
           @ drop (nat (endLine c) + 1) (lines s)"
proof -
  have sp: "js_splice (lines s) (startLine c) (endLine c - startLine c + 1) items =
        take (nat (startLine c)) (lines s) @ items @ drop (nat (endLine c) + 1) (lines s)"
    for items
    using assms by (intro js_splice_range) simp_all
  have b: "js_slice (line_at (lines s) (startLine c)) 0 (startOffset c) =
        take (nat (startOffset c)) (lines s ! nat (startLine c))"
    using assms by (simp add: js_slice_prefix line_at_in_range)
  have a: "js_slice_from (line_at (lines s) (endLine c)) (endOffset c) =
        drop (nat (endOffset c)) (lines s ! nat (endLine c))"
    using assms by (simp add: js_slice_from_suffix line_at_in_range)
  show ?thesis
    using assms(6)
    by (simp add: deleteKsel_def Let_def sp a b pushUndo_def scheduleAutosave_def)
qed

theorem range_replace_newline_example:
  "lines (deleteKsel (Some [CHR 0x0A])
           ((init ''abc\<newline>def\<newline>ghi'')
              \<lparr>ksel := Some \<lparr>anchorLine = 0, anchorOffset = 1, focusLine = 2, focusOffset = 2\<rparr>\<rparr>))
     = [''a'', ''i'']"
  using range_replace_newline_two_lines
    [of "\<lparr>startLine = 0, startOffset = 1, endLine = 2, endOffset = 2\<rparr>"
        "(init ''abc\<newline>def\<newline>ghi'')
              \<lparr>ksel := Some \<lparr>anchorLine = 0, anchorOffset = 1, focusLine = 2, focusOffset = 2\<rparr>\<rparr>"]
  by (simp add: init_def setContent_def kselNormalized_def)

section \<open>Selections on a single line\<close>

text \<open>
  Claim C9. A selection whose two ends are on the same line is rejected by both
  extractions of a cross-line range: \<open>getKselAsCross\<close> and \<open>getCrossLineSelection\<close> return
  \<open>null\<close>. \<open>deleteSelection\<close> returns \<open>false\<close> on such a range and leaves the state as it
  is. The key handlers that consume a cross-line selection, the first block of
  \<open>handleLineKeydown\<close> and the \<open>Delete\<close>/\<open>Backspace\<close> branch of the global handler, do
  not act on it either.
\<close>

theorem same_line_selection_rejected:
  assumes "anchorLine k = focusLine k"
    and "pt_line (startPoint d) = pt_line (endPoint d)"
    and "startLine c = endLine c"
  shows "getKselAsCross (s\<lparr>ksel := Some k\<rparr>) = None
       \<and> getCrossLineSelection (Some d) s = None
       \<and> deleteSelection (Some c) s = (False, s)
       \<and> keydown_ksel e (s\<lparr>ksel := Some k\<rparr>) = None
       \<and> global_keydown_delete e (Some d) (s\<lparr>ksel := Some k\<rparr>) = None"
proof -
  have 1: "getKselAsCross (s'\<lparr>ksel := Some k\<rparr>) = None" for s'
    using assms(1) by (simp add: getKselAsCross_def kselNormalized_def)
  have 2: "getCrossLineSelection (Some d) s' = None" for s'
    using assms(2) by (simp add: getCrossLineSelection_def Let_def)
  have 3: "deleteSelection (Some c) s = (False, s)"
    using assms(3) by (simp add: deleteSelection_def)
  have 4: "keydown_ksel e (s\<lparr>ksel := Some k\<rparr>) = None"
    using assms(1) by (simp add: keydown_ksel_def)
  have 5: "global_keydown_delete e (Some d) (s\<lparr>ksel := Some k\<rparr>) = None"
    by (simp add: global_keydown_delete_def 1 2)
  from 1 2 3 4 5 show ?thesis by simp
qed

theorem same_line_selection_example:
  "getKselAsCross ((init ''abc\<newline>def'')
       \<lparr>ksel := Some \<lparr>anchorLine = 1, anchorOffset = 0, focusLine = 1, focusOffset = 2\<rparr>\<rparr>)
     = None
   \<and> getCrossLineSelection
       (Some \<lparr>isCollapsed = False, rangeCount = 1,
              startPoint = \<lparr>pt_line = 1, pt_offset = 0, pt_lineEl = True, pt_editing = False,
                             pt_rendered = True, pt_textNodes = [3], pt_node = Some 0\<rparr>,
              endPoint = \<lparr>pt_line = 1, pt_offset = 2, pt_lineEl = True, pt_editing = False,
                           pt_rendered = True, pt_textNodes = [3], pt_node = Some 0\<rparr>\<rparr>)
       (init ''abc\<newline>def'')
     = None
   \<and> deleteSelection
       (Some \<lparr>startLine = 1, startOffset = 0, endLine = 1, endOffset = 2\<rparr>)
       (init ''abc\<newline>def'')
     = (False, init ''abc\<newline>def'')
   \<and> keydown_ksel
       \<lparr>key = ''Delete'', shiftKey = False, ctrlKey = False, metaKey = False, altKey = False\<rparr>
       ((init ''abc\<newline>def'')
          \<lparr>ksel := Some \<lparr>anchorLine = 1, anchorOffset = 0, focusLine = 1, focusOffset = 2\<rparr>\<rparr>)
     = None
   \<and> global_keydown_delete
       \<lparr>key = ''Delete'', shiftKey = False, ctrlKey = False, metaKey = False, altKey = False\<rparr>
       (Some \<lparr>isCollapsed = False, rangeCount = 1,
              startPoint = \<lparr>pt_line = 1, pt_offset = 0, pt_lineEl = True, pt_editing = False,
                             pt_rendered = True, pt_textNodes = [3], pt_node = Some 0\<rparr>,
              endPoint = \<lparr>pt_line = 1, pt_offset = 2, pt_lineEl = True, pt_editing = False,
                           pt_rendered = True, pt_textNodes = [3], pt_node = Some 0\<rparr>\<rparr>)
       ((init ''abc\<newline>def'')
          \<lparr>ksel := Some \<lparr>anchorLine = 1, anchorOffset = 0, focusLine = 1, focusOffset = 2\<rparr>\<rparr>)
     = None"
  using same_line_selection_rejected
    [of "\<lparr>anchorLine = 1, anchorOffset = 0, focusLine = 1, focusOffset = 2\<rparr>"
        "\<lparr>isCollapsed = False, rangeCount = 1,
              startPoint = \<lparr>pt_line = 1, pt_offset = 0, pt_lineEl = True, pt_editing = False,
                             pt_rendered = True, pt_textNodes = [3], pt_node = Some 0\<rparr>,
              endPoint = \<lparr>pt_line = 1, pt_offset = 2, pt_lineEl = True, pt_editing = False,
                           pt_rendered = True, pt_textNodes = [3], pt_node = Some 0\<rparr>\<rparr>"
        "\<lparr>startLine = 1, startOffset = 0, endLine = 1, endOffset = 2\<rparr>"
        "init ''abc\<newline>def''"
        "\<lparr>key = ''Delete'', shiftKey = False, ctrlKey = False, metaKey = False, altKey = False\<rparr>"]
  by simp

section \<open>The document is never empty\<close>

lemma lines_pushUndo [simp]: "lines (pushUndo s) = lines s"
  by (simp add: pushUndo_def)

lemma lines_scheduleAutosave [simp]: "lines (scheduleAutosave s) = lines s"
  by (simp add: scheduleAutosave_def)

lemma deleteSelection_nonempty: "lines s \<noteq> [] \<Longrightarrow> lines (snd (deleteSelection c s)) \<noteq> []"
  by (simp add: deleteSelection_def Let_def split: option.splits)

lemma deleteKsel_nonempty: "lines s \<noteq> [] \<Longrightarrow> lines (deleteKsel ins s) \<noteq> []"
  by (simp add: deleteKsel_def Let_def split: option.splits)

lemma js_splice_keeps_prefix:
  assumes "0 < a" and "xs \<noteq> []"
  shows "js_splice xs a d items \<noteq> []"
proof -
  have "0 < js_rel (length xs) a"
    using assms by (simp add: js_rel_def)
  then have "take (js_rel (length xs) a) xs \<noteq> []"
    using assms(2) by simp
  then show ?thesis
    by (simp add: js_splice_def Let_def)
qed

lemma keydown_Backspace_nonempty:
  assumes "keydown_Backspace idx val sel selEnd s = Some (Inr s')"
  shows "lines s' \<noteq> []"
proof -
  from assms have g: "idx > 0" "idx - 1 < length (lines s)"
    and s': "s' = scheduleAutosave (pushUndo
              (s\<lparr>lines := js_splice ((lines s)[idx - 1 := lines s ! (idx - 1) @ val]) (int idx) 1 []\<rparr>))"
    by (auto simp: keydown_Backspace_def Let_def split: if_splits)
  from g have "(lines s)[idx - 1 := lines s ! (idx - 1) @ val] \<noteq> []"
    by auto
  moreover have "0 < int idx"
    using g by simp
  ultimately have "js_splice ((lines s)[idx - 1 := lines s ! (idx - 1) @ val]) (int idx) 1 [] \<noteq> []"
    by (rule js_splice_keeps_prefix[rotated])
  then show ?thesis
    by (simp add: s')
qed

lemma keydown_Delete_nonempty:
  assumes "keydown_Delete idx val sel s = Some s'"
  shows "lines s' \<noteq> []"
proof -
  from assms have g: "int idx < int (length (lines s)) - 1"
    and s': "s' = scheduleAutosave (pushUndo
              (s\<lparr>lines := js_splice ((lines s)[idx := val @ lines s ! (idx + 1)]) (int idx + 1) 1 []\<rparr>))"
    by (auto simp: keydown_Delete_def Let_def split: if_splits)
  from g have "(lines s)[idx := val @ lines s ! (idx + 1)] \<noteq> []"
    by auto
  moreover have "0 < int idx + 1"
    by simp
  ultimately have "js_splice ((lines s)[idx := val @ lines s ! (idx + 1)]) (int idx + 1) 1 [] \<noteq> []"
    by (rule js_splice_keeps_prefix[rotated])
  then show ?thesis
    by (simp add: s')
qed

lemma apply_op_nonempty: "lines s \<noteq> [] \<Longrightarrow> lines (apply_op op s) \<noteq> []"
proof (cases op)
  case (OpBackspace idx val sel selEnd)
  then show "lines s \<noteq> [] \<Longrightarrow> lines (apply_op op s) \<noteq> []"
    by (auto split: option.splits sum.splits dest: keydown_Backspace_nonempty)
next
  case (OpDelete idx val sel)
  then show "lines s \<noteq> [] \<Longrightarrow> lines (apply_op op s) \<noteq> []"
    by (auto split: option.splits dest: keydown_Delete_nonempty)
qed (simp_all add: deleteSelection_nonempty deleteKsel_nonempty)

lemma apply_ops_nonempty: "lines s \<noteq> [] \<Longrightarrow> lines (apply_ops ops s) \<noteq> []"
  unfolding apply_ops_def
  by (induction ops arbitrary: s) (simp_all add: apply_op_nonempty)

lemma js_splice_all: "js_splice xs 0 (int (length xs)) items = items"
  by (simp add: js_splice_def js_rel_def Let_def)

lemma deleteKsel_selectAll: "lines (deleteKsel None (selectAll s)) = [[]]"
proof (cases "lines s = []")
  case True
  then show ?thesis
    by (simp add: deleteKsel_def selectAll_def kselNormalized_def Let_def line_at_def
        js_slice_def js_slice_from_def js_splice_def)
next
  case False
  then have n: "0 < length (lines s)" by simp
  have le: "(0::int) < int (length (lines s)) - 1 \<or> (0::int) = int (length (lines s)) - 1"
    using n by linarith
  have norm: "kselNormalized (ksel (selectAll s)) =
      Some \<lparr>startLine = 0, startOffset = 0, endLine = int (length (lines s)) - 1,
            endOffset = int (length (line_at (lines s) (int (length (lines s)) - 1)))\<rparr>"
    using le by (auto simp: selectAll_def kselNormalized_def Let_def)
  have sl: "lines (selectAll s) = lines s"
    by (simp add: selectAll_def Let_def)
  show ?thesis
    using js_splice_all[of "lines s" "[[]]"]
    by (simp add: deleteKsel_def norm sl Let_def js_slice_def js_slice_from_def js_rel_def)
qed

lemma deleteSelection_selectAll:
  assumes "1 < length (lines s)"
  shows "lines (snd (deleteSelection (getKselAsCross (selectAll s)) (selectAll s))) = [[]]"
proof -
  have lt: "(0::int) < int (length (lines s)) - 1"
    using assms by linarith
  have norm: "kselNormalized (ksel (selectAll s)) =
      Some \<lparr>startLine = 0, startOffset = 0, endLine = int (length (lines s)) - 1,
            endOffset = int (length (line_at (lines s) (int (length (lines s)) - 1)))\<rparr>"
    using lt by (simp add: selectAll_def kselNormalized_def Let_def)
  have cross: "getKselAsCross (selectAll s) =
      Some \<lparr>startLine = 0, startOffset = 0, endLine = int (length (lines s)) - 1,
            endOffset = int (length (line_at (lines s) (int (length (lines s)) - 1)))\<rparr>"
    using lt by (simp add: getKselAsCross_def norm)
  have sl: "lines (selectAll s) = lines s"
    by (simp add: selectAll_def Let_def)
  show ?thesis
    using lt js_splice_all[of "lines s" "[[]]"]
    by (simp add: cross deleteSelection_def sl Let_def js_slice_def js_slice_from_def js_rel_def)
qed

text \<open>
  Claim C2. The line array is never empty. Starting from a non-empty document, any
  sequence of deleting operations (range deletes through \<open>deleteKsel\<close> and
  \<open>deleteSelection\<close>, the Backspace and Delete merges), with any selection changes in
  between, leaves at least one line. Deleting everything, that is the selection made by
  \<open>selectAll\<close>, leaves exactly one empty line, through \<open>deleteKsel\<close> and, when the
  document has more than one line, through \<open>deleteSelection\<close>.
\<close>

theorem document_never_empty:
  assumes "lines s \<noteq> []"
  shows "lines (apply_ops ops s) \<noteq> []
       \<and> lines (deleteKsel None (selectAll (apply_ops ops s))) = [[]]
       \<and> (1 < length (lines (apply_ops ops s)) \<longrightarrow>
            lines (snd (deleteSelection (getKselAsCross (selectAll (apply_ops ops s)))
                          (selectAll (apply_ops ops s)))) = [[]])"
  using assms
  by (simp add: apply_ops_nonempty deleteKsel_selectAll deleteSelection_selectAll)

theorem document_never_empty_example:
  "lines (init ''abc\<newline>def\<newline>ghi'') \<noteq> []
   \<and> lines (apply_ops
        [OpDelete 0 ''abc'' 3,
         OpSetKsel (Some \<lparr>anchorLine = 0, anchorOffset = 0, focusLine = 1, focusOffset = 3\<rparr>),
         OpDeleteKsel None,
         OpBackspace 0 [] 0 0,
         OpDelete 0 [] 0,
         OpDeleteSelection (Some \<lparr>startLine = 0, startOffset = 0, endLine = 1, endOffset = 0\<rparr>)]
        (init ''abc\<newline>def\<newline>ghi'')) = [[]]
   \<and> lines (deleteKsel None (selectAll (init ''abc\<newline>def\<newline>ghi''))) = [[]]
   \<and> lines (snd (deleteSelection (getKselAsCross (selectAll (init ''abc\<newline>def\<newline>ghi'')))
                   (selectAll (init ''abc\<newline>def\<newline>ghi'')))) = [[]]"
  using document_never_empty [of "init ''abc\<newline>def\<newline>ghi''"
        "[OpDelete 0 ''abc'' 3,
         OpSetKsel (Some \<lparr>anchorLine = 0, anchorOffset = 0, focusLine = 1, focusOffset = 3\<rparr>),
         OpDeleteKsel None,
         OpBackspace 0 [] 0 0,
         OpDelete 0 [] 0,
         OpDeleteSelection (Some \<lparr>startLine = 0, startOffset = 0, endLine = 1, endOffset = 0\<rparr>)]"]
  by (simp add: init_def setContent_def apply_ops_def keydown_Delete_def keydown_Backspace_def
      deleteKsel_def deleteSelection_def kselNormalized_def line_at_def js_slice_def
      js_slice_from_def js_splice_def js_rel_def scheduleAutosave_def pushUndo_def
      selectAll_def getKselAsCross_def Let_def)

section \<open>Extending the keyboard selection\<close>

lemma lines_clearKsel [simp]: "lines (clearKsel s) = lines s"
  by (simp add: clearKsel_def split: option.splits)

lemma lines_keydown_sel [simp]: "lines (keydown_sel k idx sel s) = lines s"
  by (cases k)
     (simp_all add: keydown_ArrowUp_def keydown_ArrowDown_def keydown_ShiftEnd_def
        keydown_ShiftHome_def Let_def split: option.splits)










section \<open>Undo and redo\<close>

lemma undoStack_pushUndo [simp]: "undoStack (pushUndo s) = undoStack s"
  by (simp add: pushUndo_def)

lemma redoStack_pushUndo [simp]: "redoStack (pushUndo s) = redoStack s"
  by (simp add: pushUndo_def)

lemma undoStack_scheduleAutosave [simp]: "undoStack (scheduleAutosave s) = undoStack s"
  by (simp add: scheduleAutosave_def)

lemma redoStack_scheduleAutosave [simp]: "redoStack (scheduleAutosave s) = redoStack s"
  by (simp add: scheduleAutosave_def)

lemma undo_empty: "undoStack s = [] \<Longrightarrow> undo s = s"
  by (simp add: undo_def)

lemma redo_empty: "redoStack s = [] \<Longrightarrow> redo s = s"
  by (simp add: redo_def)

lemma undo_nonempty:
  assumes "undoStack s \<noteq> []"
  shows "lines (undo s) = last (undoStack s)"
    and "undoStack (undo s) = butlast (undoStack s)"
    and "redoStack (undo s) = redoStack s @ [lines s]"
  using assms by (simp_all add: undo_def)

lemma redo_nonempty:
  assumes "redoStack s \<noteq> []"
  shows "lines (redo s) = last (redoStack s)"
    and "redoStack (redo s) = butlast (redoStack s)"
    and "undoStack (redo s) = undoStack s @ [lines s]"
  using assms by (simp_all add: redo_def)

lemma redo_undo:
  assumes "undoStack s \<noteq> []"
  shows "lines (redo (undo s)) = lines s"
    and "undoStack (redo (undo s)) = undoStack s"
    and "redoStack (redo (undo s)) = redoStack s"
proof -
  have r: "redoStack (undo s) \<noteq> []"
    using assms by (simp add: undo_nonempty)
  show "lines (redo (undo s)) = lines s"
    using assms by (simp add: redo_nonempty[OF r] undo_nonempty)
  show "undoStack (redo (undo s)) = undoStack s"
    using assms by (simp add: redo_nonempty[OF r] undo_nonempty)
  show "redoStack (redo (undo s)) = redoStack s"
    using assms by (simp add: redo_nonempty[OF r] undo_nonempty)
qed

lemma pushUndo_callback_undoStack_nonempty: "undoStack (pushUndo_callback s) \<noteq> []"
proof (cases "undoStack s \<noteq> [] \<and> last (undoStack s) = lines s")
  case True
  then show ?thesis by (simp add: pushUndo_callback_def)
next
  case False
  have "tl (undoStack s @ [lines s]) \<noteq> []" if "200 < length (undoStack s @ [lines s])"
  proof -
    from that have "1 < length (undoStack s @ [lines s])" by linarith
    then have "0 < length (tl (undoStack s @ [lines s]))"
      unfolding length_tl by linarith
    then show ?thesis by blast
  qed
  with False show ?thesis
    by (auto simp: pushUndo_callback_def Let_def)
qed

lemma step_edit_undoStack_nonempty:
  assumes "edit_event ev" and "undoStack s \<noteq> []"
  shows "undoStack (step ev s) \<noteq> []"
  using assms by (cases ev) (simp_all add: pushUndo_callback_undoStack_nonempty)

lemma run_edits_undoStack_nonempty:
  assumes "list_all edit_event evs" and "undoStack s \<noteq> []"
  shows "undoStack (run evs s) \<noteq> []"
  using assms unfolding run_def
  by (induction evs arbitrary: s) (simp_all add: step_edit_undoStack_nonempty)

lemma init_undoStack_nonempty: "undoStack (init content) \<noteq> []"
  by (simp add: init_def Let_def)

text \<open>
  Claim C4 reads \<open>redo()\<close> right after \<open>undo()\<close> as restoring every state that an edit
  has produced. It does not when the undo stack is empty and the redo stack is not:
  undo once from the initial state, then type \<open>x\<close>. Now \<open>undo()\<close> does nothing, and
  \<open>redo()\<close> replaces the lines by the entry on the redo stack.
\<close>

theorem redo_after_undo_not_inverse:
  "undoStack (run [Undo, Edit [''x'']] (init [])) = []
   \<and> redoStack (run [Undo, Edit [''x'']] (init [])) = [[[]]]
   \<and> lines (run [Undo, Edit [''x'']] (init [])) = [''x'']
   \<and> lines (redo (undo (run [Undo, Edit [''x'']] (init [])))) = [[]]
   \<and> lines (redo (undo (run [Undo, Edit [''x'']] (init []))))
       \<noteq> lines (run [Undo, Edit [''x'']] (init []))"
  by (simp add: run_def init_def setContent_def undo_def redo_def pushUndo_def
      scheduleAutosave_def Let_def)

lemma redo_undo_both_empty:
  assumes "undoStack s = []" and "redoStack s = []"
  shows "redo (undo s) = s"
  using assms by (simp add: undo_empty redo_empty)

lemma redo_undo_general:
  assumes "undoStack s \<noteq> [] \<or> redoStack s = []"
  shows "lines (redo (undo s)) = lines s"
    and "undoStack (redo (undo s)) = undoStack s"
    and "redoStack (redo (undo s)) = redoStack s"
proof -
  have "lines (redo (undo s)) = lines s \<and> undoStack (redo (undo s)) = undoStack s
      \<and> redoStack (redo (undo s)) = redoStack s"
  proof (cases "undoStack s = []")
    case True
    with assms have "redo (undo s) = s"
      by (simp add: redo_undo_both_empty)
    then show ?thesis by simp
  next
    case False
    then show ?thesis by (simp add: redo_undo)
  qed
  then show "lines (redo (undo s)) = lines s"
    and "undoStack (redo (undo s)) = undoStack s"
    and "redoStack (redo (undo s)) = redoStack s"
    by simp_all
qed

text \<open>
  Claim C4, as the code has it. \<open>undo()\<close> does nothing when the undo stack is empty,
  whatever the redo stack holds; otherwise it pushes the current lines onto the redo
  stack and makes the popped entry the current lines. \<open>redo()\<close> is the mirror image,
  testing the redo stack alone. \<open>redo()\<close> right after \<open>undo()\<close> restores the lines and both
  stacks in every state whose undo stack is not empty or whose redo stack is empty; the
  states reached from the initial state by edits and firings of the commit timer alone
  are of that kind.
\<close>

theorem undo_redo_inverse:
  assumes "undoStack u = []" and "redoStack v = []"
    and "undoStack s \<noteq> []" and "redoStack r \<noteq> []"
    and "undoStack t \<noteq> [] \<or> redoStack t = []"
    and "list_all edit_event evs"
  shows "undo u = u \<and> redo v = v
       \<and> lines (undo s) = last (undoStack s)
       \<and> undoStack (undo s) = butlast (undoStack s)
       \<and> redoStack (undo s) = redoStack s @ [lines s]
       \<and> lines (redo r) = last (redoStack r)
       \<and> redoStack (redo r) = butlast (redoStack r)
       \<and> undoStack (redo r) = undoStack r @ [lines r]
       \<and> lines (redo (undo t)) = lines t
       \<and> undoStack (redo (undo t)) = undoStack t
       \<and> redoStack (redo (undo t)) = redoStack t
       \<and> lines (redo (undo (run evs (init content)))) = lines (run evs (init content))"
proof -
  have "undoStack (run evs (init content)) \<noteq> []"
    using assms(6) init_undoStack_nonempty by (rule run_edits_undoStack_nonempty)
  then have "lines (redo (undo (run evs (init content)))) = lines (run evs (init content))"
    by (rule redo_undo)
  then show ?thesis
    using assms(1-4) redo_undo_general[OF assms(5)]
    by (simp add: undo_empty redo_empty undo_nonempty redo_nonempty)
qed

theorem undo_redo_inverse_example:
  "redoStack (run [Undo] (init [])) = [[[]]]
   \<and> undo (run [Undo] (init [])) = run [Undo] (init [])
   \<and> undoStack (init []) = [[[]]]
   \<and> redo (init []) = init []
   \<and> lines (run [Edit [''a''], Commit, Edit [''ab'']] (init [])) = [''ab'']
   \<and> lines (undo (run [Edit [''a''], Commit, Edit [''ab'']] (init []))) = [''a'']
   \<and> undoStack (undo (run [Edit [''a''], Commit, Edit [''ab'']] (init []))) = [[[]]]
   \<and> redoStack (undo (run [Edit [''a''], Commit, Edit [''ab'']] (init []))) = [[''ab'']]
   \<and> lines (redo (undo (run [Edit [''a''], Commit, Edit [''ab'']] (init [])))) = [''ab'']
   \<and> undoStack (redo (undo (run [Edit [''a''], Commit, Edit [''ab'']] (init []))))
       = [[[]], [''a'']]
   \<and> redoStack (redo (undo (run [Edit [''a''], Commit, Edit [''ab'']] (init [])))) = []
   \<and> lines (redo (undo (setContent ''x'' (init [])))) = [''x'']"
  using undo_redo_inverse
    [where u = "run [Undo] (init [])"
       and v = "init []"
       and s = "run [Edit [''a''], Commit, Edit [''ab'']] (init [])"
       and r = "undo (run [Edit [''a''], Commit, Edit [''ab'']] (init []))"
       and t = "setContent ''x'' (init [])"
       and evs = "[Edit [''a''], Commit, Edit [''ab'']]"
       and content = "[]"]
  by (simp add: run_def init_def setContent_def pushUndo_callback_def undo_def redo_def
      pushUndo_def scheduleAutosave_def Let_def)

section \<open>The debounced commit\<close>

text \<open>
  Claim C5 reads the commit as always leaving the redo stack empty. It does not: type \<open>a\<close>, let the commit fire,
  undo, delete the \<open>a\<close> again. The timer is armed, and when it fires the snapshot equals
  the top of the undo stack, so the callback returns before clearing the redo stack.
\<close>

theorem commit_not_always_clearing_redo:
  "undoPushTimer (run [Edit [''a''], Commit, Undo, Edit [[]]] (init []))
   \<and> redoStack (pushUndo_callback (run [Edit [''a''], Commit, Undo, Edit [[]]] (init [])))
       = [[''a'']]
   \<and> redoStack (pushUndo_callback (run [Edit [''a''], Commit, Undo, Edit [[]]] (init [])))
       \<noteq> []"
  by (simp add: run_def init_def setContent_def pushUndo_callback_def undo_def pushUndo_def
      scheduleAutosave_def Let_def)

text \<open>
  Claim C5, as the code has it. When the commit fires and the undo stack is non-empty
  with a top equal to the snapshot, neither stack changes. Otherwise the snapshot is
  pushed onto the undo stack, the oldest entry is dropped if that makes more than 200,
  and the redo stack is cleared. Either way the lines are untouched and the top of the
  undo stack is the current line array afterwards.
\<close>

theorem commit_pushes_unless_duplicate:
  "lines (pushUndo_callback s) = lines s
   \<and> undoStack (pushUndo_callback s) =
       (if undoStack s \<noteq> [] \<and> last (undoStack s) = lines s then undoStack s
        else if length (undoStack s) < 200 then undoStack s @ [lines s]
        else tl (undoStack s) @ [lines s])
   \<and> redoStack (pushUndo_callback s) =
       (if undoStack s \<noteq> [] \<and> last (undoStack s) = lines s then redoStack s else [])
   \<and> last (undoStack (pushUndo_callback s)) = lines s"
proof -
  have tl: "tl (undoStack s @ [lines s]) = tl (undoStack s) @ [lines s]"
    if "\<not> length (undoStack s) < 200"
  proof -
    from that have "undoStack s \<noteq> []" by auto
    then show ?thesis by simp
  qed
  show ?thesis
  proof (cases "undoStack s \<noteq> [] \<and> last (undoStack s) = lines s")
    case True
    then show ?thesis by (simp add: pushUndo_callback_def)
  next
    case False
    then show ?thesis
      using tl by (auto simp: pushUndo_callback_def Let_def)
  qed
qed

section \<open>The depth of the history\<close>

lemma depth_ok_callback: "depth_ok s \<Longrightarrow> depth_ok (pushUndo_callback s)"
  by (auto simp: depth_ok_def pushUndo_callback_def Let_def)

lemma depth_ok_undo: "depth_ok s \<Longrightarrow> depth_ok (undo s)"
  by (cases "undoStack s") (auto simp: depth_ok_def undo_def)

lemma depth_ok_redo: "depth_ok s \<Longrightarrow> depth_ok (redo s)"
  by (cases "redoStack s") (auto simp: depth_ok_def redo_def)

lemma depth_ok_step: "depth_ok s \<Longrightarrow> depth_ok (step ev s)"
proof (cases ev)
  case (Edit ls)
  then show "depth_ok s \<Longrightarrow> depth_ok (step ev s)"
    by (simp add: depth_ok_def)
next
  case Commit
  then show "depth_ok s \<Longrightarrow> depth_ok (step ev s)"
    by (simp add: depth_ok_callback)
next
  case Undo
  then show "depth_ok s \<Longrightarrow> depth_ok (step ev s)"
    by (simp add: depth_ok_undo)
next
  case Redo
  then show "depth_ok s \<Longrightarrow> depth_ok (step ev s)"
    by (simp add: depth_ok_redo)
next
  case (SetContent content)
  then show "depth_ok s \<Longrightarrow> depth_ok (step ev s)"
    by (simp add: depth_ok_def setContent_def Let_def)
qed

lemma depth_ok_run: "depth_ok s \<Longrightarrow> depth_ok (run evs s)"
  unfolding run_def
  by (induction evs arbitrary: s) (simp_all add: depth_ok_step)

lemma depth_ok_init: "depth_ok (init content)"
  by (simp add: depth_ok_def init_def setContent_def Let_def)

text \<open>
  Claim C6. In every state the editor can reach from \<open>init\<close>, and after any further
  operation, the undo stack and the redo stack hold at most 200 entries each (indeed
  at most 200 together). The commit pushes at the end of the undo stack and, at 200
  entries, drops the oldest one; \<open>undo\<close> and \<open>redo\<close> move one entry from one stack to the
  other, so they never push beyond the cap.
\<close>

theorem history_stacks_bounded:
  "length (undoStack (run evs (init content))) + length (redoStack (run evs (init content)))
     \<le> 200
   \<and> length (undoStack (run evs (init content))) \<le> 200
   \<and> length (redoStack (run evs (init content))) \<le> 200
   \<and> length (undoStack (step ev (run evs (init content)))) \<le> 200
   \<and> length (redoStack (step ev (run evs (init content)))) \<le> 200
   \<and> undoStack (pushUndo_callback s) =
       (if undoStack s \<noteq> [] \<and> last (undoStack s) = lines s then undoStack s
        else if length (undoStack s) < 200 then undoStack s @ [lines s]
        else tl (undoStack s) @ [lines s])"
proof -
  have "depth_ok (run evs (init content))"
    using depth_ok_init by (rule depth_ok_run)
  moreover from this have "depth_ok (step ev (run evs (init content)))"
    by (rule depth_ok_step)
  moreover have "undoStack (pushUndo_callback s) =
       (if undoStack s \<noteq> [] \<and> last (undoStack s) = lines s then undoStack s
        else if length (undoStack s) < 200 then undoStack s @ [lines s]
        else tl (undoStack s) @ [lines s])"
  proof -
    have "tl (undoStack s @ [lines s]) = tl (undoStack s) @ [lines s]"
      if "\<not> length (undoStack s) < 200"
    proof -
      from that have "undoStack s \<noteq> []" by auto
      then show ?thesis by simp
    qed
    then show ?thesis
      by (auto simp: pushUndo_callback_def Let_def)
  qed
  ultimately show ?thesis
    by (simp add: depth_ok_def)
qed

theorem history_stacks_bounded_example:
  "length (undoStack (run [Edit [''a''], Commit, Undo, Undo] (init []))) \<le> 200
   \<and> redoStack (run [Edit [''a''], Commit, Undo, Undo] (init [])) = [[''a''], [''a'']]
   \<and> length (redoStack (step Redo (run [Edit [''a''], Commit, Undo, Undo] (init [])))) \<le> 200
   \<and> undoStack (pushUndo_callback
         \<lparr>lines = [''new''], ksel = None, crossLineSelActive = False,
            undoStack = replicate 200 [''old''], redoStack = [],
            undoPushTimer = True, autosaveTimer = False\<rparr>)
       = replicate 199 [''old''] @ [[''new'']]"
  using history_stacks_bounded
    [of "[Edit [''a''], Commit, Undo, Undo]" "[]" Redo
        "\<lparr>lines = [''new''], ksel = None, crossLineSelActive = False,
            undoStack = replicate 200 [''old''], redoStack = [],
            undoPushTimer = True, autosaveTimer = False\<rparr>"]
  by (simp add: run_def init_def setContent_def pushUndo_callback_def undo_def redo_def
      pushUndo_def scheduleAutosave_def Let_def)

section \<open>The proportional projection\<close>

text \<open>Rounding to a 53-bit significand changes a number by at most the fraction
  \<open>2^-53\<close> of its size.\<close>

lemma two_powi_pos: "(0::rat) < 2 powi e"
  by (simp add: zero_less_power_int)

lemma float_exponent_le:
  assumes "x \<noteq> 0"
  shows "2 powi float_exponent x \<le> \<bar>x\<bar>"
proof -
  obtain p q where pq: "quotient_of \<bar>x\<bar> = (p, q)"
    by (cases "quotient_of \<bar>x\<bar>")
  have q: "0 < q"
    using pq by (rule quotient_of_denom_pos)
  have x: "\<bar>x\<bar> = of_int p / of_int q"
    using pq by (rule quotient_of_div)
  have "0 < \<bar>x\<bar>"
    using assms by simp
  with x q have p: "0 < p"
    by (simp add: zero_less_divide_iff)
  have bp: "2 ^ nat (bitlen p - 1) \<le> p" and bq: "q < 2 ^ nat (bitlen q)"
    using bitlen_bounds[OF p] bitlen_bounds[OF q] by simp_all
  have bp1: "1 \<le> bitlen p" and bq0: "0 \<le> bitlen q"
    using p bitlen_nonneg[of q] by (simp_all add: bitlen_alt_def)
  have lo: "(2::rat) powi (bitlen p - 1) \<le> of_int p"
  proof -
    have "(2::rat) powi (bitlen p - 1) = 2 ^ nat (bitlen p - 1)"
      using bp1 by (simp add: power_int_nonneg_exp)
    also have "\<dots> = of_int (2 ^ nat (bitlen p - 1))"
      by simp
    also have "\<dots> \<le> of_int p"
      using bp by (simp only: of_int_le_iff)
    finally show ?thesis .
  qed
  have hi: "of_int q \<le> (2::rat) powi bitlen q"
  proof -
    have "(of_int q :: rat) \<le> of_int (2 ^ nat (bitlen q))"
      using bq by (simp only: of_int_le_iff)
    also have "\<dots> = 2 ^ nat (bitlen q)"
      by simp
    also have "\<dots> = 2 powi bitlen q"
      using bq0 by (simp add: power_int_nonneg_exp)
    finally show ?thesis .
  qed
  have below: "(2::rat) powi (bitlen p - bitlen q - 1) \<le> \<bar>x\<bar>"
  proof -
    have "(2::rat) powi (bitlen p - bitlen q - 1) = 2 powi (bitlen p - 1) / 2 powi bitlen q"
      using power_int_diff[of "2::rat" "bitlen p - 1" "bitlen q"]
      by (simp add: algebra_simps)
    also have "\<dots> \<le> of_int p / 2 powi bitlen q"
      using lo two_powi_pos[of "bitlen q"] by (simp add: divide_right_mono)
    also have "\<dots> \<le> of_int p / of_int q"
      using hi q p by (simp add: divide_left_mono)
    finally show ?thesis
      using x by simp
  qed
  show ?thesis
    using below by (simp add: float_exponent_def pq Let_def)
qed

lemma round_half_even_error: "\<bar>of_int (round_half_even y) - y\<bar> \<le> 1 / 2"
proof -
  have "of_int \<lfloor>y\<rfloor> \<le> y" and "y < of_int \<lfloor>y\<rfloor> + 1"
    by linarith+
  then show ?thesis
    by (auto simp: round_half_even_def Let_def abs_le_iff)
qed

lemma fl64_error:
  "\<bar>fl64 x - x\<bar> \<le> \<bar>x\<bar> / 2 ^ 53"
proof (cases "x = 0")
  case True
  then show ?thesis by (simp add: fl64_def)
next
  case False
  define u :: rat where "u = 2 powi (float_exponent x - 52)"
  have u: "0 < u"
    unfolding u_def by (rule two_powi_pos)
  have "fl64 x - x = u * (of_int (round_half_even (x / u)) - x / u)"
    using False u by (simp add: fl64_def u_def[symmetric] Let_def algebra_simps)
  then have "\<bar>fl64 x - x\<bar> = u * \<bar>of_int (round_half_even (x / u)) - x / u\<bar>"
    using u by (simp add: abs_mult)
  also have "\<dots> \<le> u * (1 / 2)"
    using u round_half_even_error[of "x / u"] by (intro mult_left_mono) simp_all
  also have "u * (1 / 2) = 2 powi float_exponent x / 2 ^ 53"
  proof -
    have "u = 2 powi float_exponent x / 2 powi 52"
      unfolding u_def by (rule power_int_diff) simp
    then show ?thesis
      by simp
  qed
  also have "\<dots> \<le> \<bar>x\<bar> / 2 ^ 53"
    using float_exponent_le[OF False] by (simp add: divide_right_mono)
  finally show ?thesis .
qed

text \<open>Dividing a position by a length and multiplying by the same length gives the
  position back after \<open>Math.round\<close>, although the two roundings may miss it.\<close>

lemma projection_exact:
  fixes c n :: nat
  assumes cn: "c \<le> n" and n0: "0 < n" and nb: "n \<le> 2 ^ 50"
  shows "Math_round (js_mul (js_div (of_nat c) (of_nat n)) (of_nat n)) = int c"
proof -
  define C :: rat where "C = of_nat c"
  define N :: rat where "N = of_nat n"
  define q where "q = fl64 (C / N)"
  define p where "p = fl64 (q * N)"
  have C0: "0 \<le> C" and N0: "0 < N"
    using n0 by (simp_all add: C_def N_def)
  have Cb: "C \<le> 2 ^ 50"
  proof -
    have "c \<le> 2 ^ 50" using cn nb by linarith
    then have "(of_nat c :: rat) \<le> of_nat (2 ^ 50)"
      by (simp only: of_nat_le_iff)
    then show ?thesis by (simp add: C_def)
  qed
  have "\<bar>q - C / N\<bar> \<le> \<bar>C / N\<bar> / 2 ^ 53"
    unfolding q_def by (rule fl64_error)
  then have e1: "\<bar>q - C / N\<bar> \<le> C / N / 2 ^ 53"
    using C0 N0 by simp
  have "\<bar>q * N - C\<bar> = N * \<bar>q - C / N\<bar>"
  proof -
    have "q * N - C = N * (q - C / N)"
      using N0 by (simp add: algebra_simps)
    then show ?thesis
      using N0 by (simp add: abs_mult)
  qed
  also have "\<dots> \<le> N * (C / N / 2 ^ 53)"
    using e1 N0 by (intro mult_left_mono) simp_all
  also have "\<dots> = C / 2 ^ 53"
    using N0 by simp
  finally have e2: "\<bar>q * N - C\<bar> \<le> C / 2 ^ 53" .
  have qN: "\<bar>q * N\<bar> \<le> C + C / 2 ^ 53"
    using e2 C0 by linarith
  have "\<bar>p - q * N\<bar> \<le> \<bar>q * N\<bar> / 2 ^ 53"
    unfolding p_def by (rule fl64_error)
  also have "\<dots> \<le> (C + C / 2 ^ 53) / 2 ^ 53"
    using qN by (simp add: divide_right_mono)
  finally have e3: "\<bar>p - q * N\<bar> \<le> (C + C / 2 ^ 53) / 2 ^ 53" .
  have "\<bar>p - C\<bar> \<le> \<bar>p - q * N\<bar> + \<bar>q * N - C\<bar>"
    by linarith
  also have "\<dots> \<le> (C + C / 2 ^ 53) / 2 ^ 53 + C / 2 ^ 53"
    using e2 e3 by linarith
  also have "\<dots> \<le> (2 ^ 50 + 2 ^ 50 / 2 ^ 53) / 2 ^ 53 + 2 ^ 50 / 2 ^ 53"
    using Cb by (intro add_mono divide_right_mono) simp_all
  also have "\<dots> < 1 / 2"
    by simp
  finally have close: "\<bar>p - C\<bar> < 1 / 2" .
  have Cc: "of_int (int c) = C"
    by (simp add: C_def)
  have "\<lfloor>p + 1 / 2\<rfloor> = int c"
  proof (rule floor_unique)
    show "of_int (int c) \<le> p + 1 / 2"
      unfolding Cc using close by linarith
    show "p + 1 / 2 < of_int (int c) + 1"
      unfolding Cc using close by linarith
  qed
  then show ?thesis
    by (simp add: Math_round_def js_mul_def js_div_def p_def q_def C_def N_def)
qed

lemma Math_round_zero: "Math_round 0 = 0"
proof -
  have "\<lfloor>(1::rat) / 2\<rfloor> = 0"
    by (rule floor_unique) simp_all
  then show ?thesis
    by (simp add: Math_round_def)
qed

lemma targetOffset_exact:
  assumes "length rawLine = renderedLen" and "0 \<le> rawOffset"
    and "rawOffset \<le> int (length rawLine)" and "renderedLen \<le> 2 ^ 50"
  shows "targetOffset rawOffset rawLine renderedLen = rawOffset"
proof (cases "length rawLine = 0")
  case True
  with assms show ?thesis
    by (simp add: targetOffset_def js_mul_def fl64_def Math_round_zero)
next
  case False
  have "Math_round (js_mul (js_div (of_nat (nat rawOffset)) (of_nat renderedLen))
          (of_nat renderedLen)) = int (nat rawOffset)"
    using assms False by (intro projection_exact) auto
  then show ?thesis
    using assms False by (simp add: targetOffset_def Let_def)
qed

text \<open>
  Claim C8. On a rendered line, \<open>offsetInLine\<close> returns
  \<open>Math.round((charPos / fullText.length) * rawLine.length)\<close>, and 0 when the rendered text
  is empty. When the rendered text and the raw line have the same length (at most
  \<open>2^50\<close>, beyond what any engine allows for a string) and the rendered character
  position is valid, that is at most that length, the result is the rendered character
  position itself. The inverse projection of \<open>findTextNodeAtOffset\<close> is exact under the
  same condition.
\<close>

theorem proportional_projection:
  assumes "pt_lineEl p" and "\<not> pt_editing p" and "pt_rendered p"
  shows "offsetInLine p s =
           (if renderedTextLength p = 0 then 0
            else Math_round (js_mul
                   (js_div (of_nat (renderedCharPos p)) (of_nat (renderedTextLength p)))
                   (of_nat (length (line_at (lines s) (pt_line p))))))
       \<and> (renderedTextLength p = length (line_at (lines s) (pt_line p))
            \<and> renderedCharPos p \<le> renderedTextLength p
            \<and> renderedTextLength p \<le> 2 ^ 50
          \<longrightarrow> offsetInLine p s = int (renderedCharPos p))
       \<and> (length rawLine = renderedLen \<and> 0 \<le> rawOffset
            \<and> rawOffset \<le> int (length rawLine) \<and> renderedLen \<le> 2 ^ 50
          \<longrightarrow> targetOffset rawOffset rawLine renderedLen = rawOffset)"
proof -
  have formula: "offsetInLine p s =
           (if renderedTextLength p = 0 then 0
            else Math_round (js_mul
                   (js_div (of_nat (renderedCharPos p)) (of_nat (renderedTextLength p)))
                   (of_nat (length (line_at (lines s) (pt_line p))))))"
    using assms by (simp add: offsetInLine_def Let_def)
  have exact: "offsetInLine p s = int (renderedCharPos p)"
    if eq: "renderedTextLength p = length (line_at (lines s) (pt_line p))"
      and valid: "renderedCharPos p \<le> renderedTextLength p"
      and bound: "renderedTextLength p \<le> 2 ^ 50"
  proof (cases "renderedTextLength p = 0")
    case True
    with valid formula show ?thesis by simp
  next
    case False
    then have "Math_round (js_mul
                   (js_div (of_nat (renderedCharPos p)) (of_nat (renderedTextLength p)))
                   (of_nat (renderedTextLength p))) = int (renderedCharPos p)"
      using valid bound by (intro projection_exact) simp_all
    with False formula eq show ?thesis by simp
  qed
  from formula exact targetOffset_exact show ?thesis
    by blast
qed

theorem proportional_projection_example:
  "renderedCharPos \<lparr>pt_line = 0, pt_offset = 1, pt_lineEl = True, pt_editing = False,
                     pt_rendered = True, pt_textNodes = [2, 3], pt_node = Some 1\<rparr> = 3
   \<and> renderedTextLength \<lparr>pt_line = 0, pt_offset = 1, pt_lineEl = True, pt_editing = False,
                     pt_rendered = True, pt_textNodes = [2, 3], pt_node = Some 1\<rparr> = 5
   \<and> offsetInLine \<lparr>pt_line = 0, pt_offset = 1, pt_lineEl = True, pt_editing = False,
                     pt_rendered = True, pt_textNodes = [2, 3], pt_node = Some 1\<rparr>
        (init ''hello'') = 3
   \<and> targetOffset 3 ''hello'' 5 = 3"
proof -
  define p where "p = \<lparr>pt_line = 0, pt_offset = 1, pt_lineEl = True, pt_editing = False,
                     pt_rendered = True, pt_textNodes = [2, 3], pt_node = Some 1\<rparr>"
  have c: "renderedCharPos p = 3"
    by (simp add: p_def renderedCharPos_def)
  have l: "renderedTextLength p = 5"
    by (simp add: p_def renderedTextLength_def)
  have r: "length (line_at (lines (init ''hello'')) (pt_line p)) = 5"
    by (simp add: p_def init_def setContent_def line_at_def)
  have b: "(5::nat) \<le> 2 ^ 50"
    by simp
  have h: "pt_lineEl p" "\<not> pt_editing p" "pt_rendered p"
    by (simp_all add: p_def)
  note t = proportional_projection[OF h, of "init ''hello''" "''hello''" 5 3]
  from t have "offsetInLine p (init ''hello'') = int (renderedCharPos p)"
    using c l r b by simp
  moreover from t have "targetOffset 3 ''hello'' 5 = 3"
    using b by simp
  ultimately show ?thesis
    using c l unfolding p_def by simp
qed

end
